theory Spec2Isabelle
  imports Main "HOL-Library.AList"
begin

section \<open>The parsed configuration document\<close>

text \<open>
  \<^verbatim>\<open>fabric_nodes.launch.py\<close> works on the dictionaries that \<^verbatim>\<open>yaml.safe_load\<close> returns.
  A key that the code reads with \<^verbatim>\<open>.get(key, default)\<close> or tests with \<^verbatim>\<open>key in d\<close> is an
  optional field (\<open>None\<close> when the key is absent); a key that the code only ever reads with
  \<^verbatim>\<open>d[key]\<close> is a plain field. The characterization values of a publisher are carried
  through unchanged, so their type is a parameter \<open>'v\<close>.
\<close>

record 'v publisher =
  pub_name :: string
  pub_qty :: "int option"
  pub_bandwidth :: "'v option"
  pub_msg_size :: "'v option"
  pub_msg_frequency :: "'v option"

record subscriber =
  sub_name :: string
  sub_node :: string
  sub_qty :: "int option"

record 'v node_config =
  nc_name :: string
  nc_qty :: "int option"
  nc_root_node :: "bool option"
  nc_terminal_node :: "bool option"
  nc_publishers :: "'v publisher list option"
  nc_subscribers :: "subscriber list option"

record 'v environment =
  env_name :: string
  env_nodes :: "'v node_config list"

record 'v config =
  environments :: "'v environment list"

text \<open>
  Every \<^verbatim>\<open>raise ValueError(...)\<close> of \<^verbatim>\<open>validate_config\<close> is one constructor, carrying the
  names its message interpolates (publisher or subscriber name first, node name second).
  \<open>KeyError\<close> is what \<^verbatim>\<open>d[key]\<close> raises on an absent key.
\<close>

datatype error =
    InvalidNodeQuantity string
  | InvalidPublisherQuantity string string
  | InsufficientPublisherParameters string string
  | InvalidSubscriberQuantity string string
  | ConflictingNodeRole string
  | RootNodeHasSubscribers string
  | TerminalNodeHasPublishers string
  | KeyError string

text \<open>\<^verbatim>\<open>d.get(key, default)\<close> on an optional field.\<close>

definition get_default :: "'a option \<Rightarrow> 'a \<Rightarrow> 'a" where
  "get_default field dflt = (case field of None \<Rightarrow> dflt | Some x \<Rightarrow> x)"

section \<open>validate\_config\<close>

text \<open>
  \<^verbatim>\<open>sum(parameter in publisher for parameter in ['bandwidth', 'msg_size', 'msg_frequency'])\<close>
\<close>

definition parameter_count :: "'v publisher \<Rightarrow> nat" where
  "parameter_count p =
     sum_list (map of_bool
       [pub_bandwidth p \<noteq> None, pub_msg_size p \<noteq> None, pub_msg_frequency p \<noteq> None])"

text \<open>The body of the loop over \<^verbatim>\<open>node_publishers\<close> (lines 36 to 43).\<close>

definition validate_publisher :: "string \<Rightarrow> 'v publisher \<Rightarrow> error + unit" where
  "validate_publisher node_nm p =
     (let publisher_qty = get_default (pub_qty p) 1 in
      if publisher_qty < 1 then Inl (InvalidPublisherQuantity (pub_name p) node_nm)
      else if parameter_count p < 2
        then Inl (InsufficientPublisherParameters (pub_name p) node_nm)
      else Inr ())"

fun validate_publishers :: "string \<Rightarrow> 'v publisher list \<Rightarrow> error + unit" where
  "validate_publishers node_nm [] = Inr ()"
| "validate_publishers node_nm (p # ps) =
     (case validate_publisher node_nm p of
        Inl e \<Rightarrow> Inl e
      | Inr _ \<Rightarrow> validate_publishers node_nm ps)"

text \<open>The body of the loop over \<^verbatim>\<open>node_subscribers\<close> (lines 48 to 50).\<close>

definition validate_subscriber :: "string \<Rightarrow> subscriber \<Rightarrow> error + unit" where
  "validate_subscriber node_nm s =
     (let subscriber_qty = get_default (sub_qty s) 1 in
      if subscriber_qty < 1 then Inl (InvalidSubscriberQuantity (sub_name s) node_nm)
      else Inr ())"

fun validate_subscribers :: "string \<Rightarrow> subscriber list \<Rightarrow> error + unit" where
  "validate_subscribers node_nm [] = Inr ()"
| "validate_subscribers node_nm (s # ss) =
     (case validate_subscriber node_nm s of
        Inl e \<Rightarrow> Inl e
      | Inr _ \<Rightarrow> validate_subscribers node_nm ss)"

text \<open>The body of the loop over \<^verbatim>\<open>environment['nodes']\<close> (lines 28 to 60).\<close>

definition validate_node :: "'v node_config \<Rightarrow> error + unit" where
  "validate_node nc =
     (let node_qty = get_default (nc_qty nc) 1 in
      if node_qty < 1 then Inl (InvalidNodeQuantity (nc_name nc))
      else
        (case validate_publishers (nc_name nc) (get_default (nc_publishers nc) []) of
           Inl e \<Rightarrow> Inl e
         | Inr _ \<Rightarrow>
        (case validate_subscribers (nc_name nc) (get_default (nc_subscribers nc) []) of
           Inl e \<Rightarrow> Inl e
         | Inr _ \<Rightarrow>
        (let root_node = get_default (nc_root_node nc) False;
             terminal_node = get_default (nc_terminal_node nc) False in
         if root_node \<and> terminal_node then Inl (ConflictingNodeRole (nc_name nc))
         else if root_node \<and> nc_subscribers nc \<noteq> None
           then Inl (RootNodeHasSubscribers (nc_name nc))
         else if terminal_node \<and> nc_publishers nc \<noteq> None
           then Inl (TerminalNodeHasPublishers (nc_name nc))
         else Inr ()))))"

fun validate_nodes :: "'v node_config list \<Rightarrow> error + unit" where
  "validate_nodes [] = Inr ()"
| "validate_nodes (nc # ncs) =
     (case validate_node nc of
        Inl e \<Rightarrow> Inl e
      | Inr _ \<Rightarrow> validate_nodes ncs)"

fun validate_environments :: "'v environment list \<Rightarrow> error + unit" where
  "validate_environments [] = Inr ()"
| "validate_environments (environment # es) =
     (case validate_nodes (env_nodes environment) of
        Inl e \<Rightarrow> Inl e
      | Inr _ \<Rightarrow> validate_environments es)"

definition validate_config :: "'v config \<Rightarrow> error + unit" where
  "validate_config cfg = validate_environments (environments cfg)"

text \<open>
  \<^verbatim>\<open>load_config\<close> reads and parses the file, validates the document and returns it. Reading
  and parsing are the YAML library's; the model starts from the parsed document.
\<close>

definition load_config :: "'v config \<Rightarrow> error + 'v config" where
  "load_config parsed =
     (case validate_config parsed of
        Inl e \<Rightarrow> Inl e
      | Inr _ \<Rightarrow> Inr parsed)"

section \<open>Config2Nodes\<close>

text \<open>
  Python's \<^verbatim>\<open>str\<close> on an integer: ordinary decimal, no padding, a minus sign for a
  negative number.
\<close>

fun str_nat :: "nat \<Rightarrow> string" where
  "str_nat n =
     (if n < 10 then [''0123456789'' ! n]
      else str_nat (n div 10) @ [''0123456789'' ! (n mod 10)])"

declare str_nat.simps [simp del]

definition str :: "int \<Rightarrow> string" where
  "str i = (if i < 0 then CHR ''-'' # str_nat (nat (- i)) else str_nat (nat i))"

text \<open>
  The \<^verbatim>\<open>Node\<close> action that \<^verbatim>\<open>create_node\<close> builds. A Python dictionary keeps its keys in
  insertion order and an assignment to a key that is already there replaces the value in
  place: an association list with \<^const>\<open>AList.update\<close>. The single dictionary of
  \<^verbatim>\<open>parameters\<close> is flattened into the four fields it holds.
\<close>

type_synonym 'v publish_topic = "(string \<times> 'v) list"
type_synonym subscribe_topic = "(string \<times> string) list"

record 'v node =
  package :: string
  executable :: string
  name :: string
  namespace :: string
  root_node :: bool
  terminal_node :: bool
  publish_topics :: "(string \<times> 'v publish_topic) list"
  subscribe_topics :: "(string \<times> subscribe_topic) list"
  node_output :: string

record 'v Config2Nodes =
  nodes :: "'v node list"
  config :: "'v config"

text \<open>\<^verbatim>\<open>Config2Nodes.__init__\<close>\<close>

definition Config2Nodes_init :: "'v config \<Rightarrow> 'v Config2Nodes" where
  "Config2Nodes_init cfg = \<lparr>nodes = [], config = cfg\<rparr>"

text \<open>
  Lines 81 to 87: the characterization dictionary of one publisher, built by three guarded
  assignments.
\<close>

definition publish_topic_of :: "'v publisher \<Rightarrow> 'v publish_topic" where
  "publish_topic_of p =
     (let t0 = [];
          t1 = (case pub_msg_size p of None \<Rightarrow> t0 | Some v \<Rightarrow> AList.update ''msg_size'' v t0);
          t2 = (case pub_bandwidth p of None \<Rightarrow> t1 | Some v \<Rightarrow> AList.update ''bandwidth'' v t1);
          t3 = (case pub_msg_frequency p of None \<Rightarrow> t2
                | Some v \<Rightarrow> AList.update ''msg_frequency'' v t2)
      in t3)"

text \<open>
  Lines 88 to 93 and 102 to 107: the assignments one publisher or subscriber makes to the
  topic dictionary. \<^verbatim>\<open>range(1, qty + 1)\<close> is \<open>[1..qty]\<close>, empty when \<open>qty < 1\<close>.
\<close>

definition set_topics ::
  "string \<Rightarrow> int \<Rightarrow> 't \<Rightarrow> (string \<times> 't) list \<Rightarrow> (string \<times> 't) list" where
  "set_topics topic_name qty topic topics =
     (if qty \<noteq> 1
      then fold (\<lambda>num d. AList.update (topic_name @ ''_'' @ str num) topic d) [1..qty] topics
      else AList.update topic_name topic topics)"

definition process_publishers :: "'v node_config \<Rightarrow> (string \<times> 'v publish_topic) list" where
  "process_publishers nc =
     (case nc_publishers nc of
        None \<Rightarrow> []
      | Some publishers \<Rightarrow>
          fold (\<lambda>publisher publish_topics.
                  set_topics (pub_name publisher) (get_default (pub_qty publisher) 1)
                    (publish_topic_of publisher) publish_topics)
               publishers [])"

definition process_subscribers :: "'v node_config \<Rightarrow> (string \<times> subscribe_topic) list" where
  "process_subscribers nc =
     (case nc_subscribers nc of
        None \<Rightarrow> []
      | Some subscribers \<Rightarrow>
          fold (\<lambda>subscriber subscribe_topics.
                  set_topics (sub_name subscriber) (get_default (sub_qty subscriber) 1)
                    [(''node'', sub_node subscriber)] subscribe_topics)
               subscribers [])"

definition create_node ::
  "string \<Rightarrow> bool \<Rightarrow> bool \<Rightarrow> (string \<times> 'v publish_topic) list \<Rightarrow>
   (string \<times> subscribe_topic) list \<Rightarrow> 'v node" where
  "create_node nm root terminal pub_topics sub_topics =
     \<lparr>package = ''fabric_nodes'', executable = ''dummy_node_exe'',
      name = nm, namespace = nm,
      root_node = root, terminal_node = terminal,
      publish_topics = pub_topics, subscribe_topics = sub_topics,
      node_output = ''screen''\<rparr>"

text \<open>
  \<^verbatim>\<open>generate_node\<close> appends to \<^verbatim>\<open>self.nodes\<close>; the model returns the converter with the
  longer list. The branch is on the presence of the key \<^verbatim>\<open>qty\<close>, not on its value.
\<close>

definition generate_node ::
  "'v Config2Nodes \<Rightarrow> 'v node_config \<Rightarrow> string \<Rightarrow> bool \<Rightarrow> bool \<Rightarrow>
   (string \<times> 'v publish_topic) list \<Rightarrow> (string \<times> subscribe_topic) list \<Rightarrow> 'v Config2Nodes" where
  "generate_node self nc node_name root terminal pub_topics sub_topics =
     (case nc_qty nc of
        Some node_qty \<Rightarrow>
          fold (\<lambda>num s.
                  s\<lparr>nodes := nodes s @
                     [create_node (node_name @ ''_'' @ str num) root terminal
                        pub_topics sub_topics]\<rparr>)
               [1..node_qty] self
      | None \<Rightarrow>
          self\<lparr>nodes := nodes self @
            [create_node node_name root terminal pub_topics sub_topics]\<rparr>)"

text \<open>
  The body of the loop over \<^verbatim>\<open>environment['nodes']\<close> in \<^verbatim>\<open>get_nodes\<close> (lines 142 to 150).
  \<^verbatim>\<open>node_config['root_node']\<close> and \<^verbatim>\<open>node_config['terminal_node']\<close> raise \<open>KeyError\<close> when the
  key is absent.
\<close>

definition get_nodes_node :: "'v node_config \<Rightarrow> 'v Config2Nodes \<Rightarrow> error + 'v Config2Nodes" where
  "get_nodes_node nc self =
     (let node_name = nc_name nc in
      case nc_root_node nc of
        None \<Rightarrow> Inl (KeyError ''root_node'')
      | Some root \<Rightarrow>
     (case nc_terminal_node nc of
        None \<Rightarrow> Inl (KeyError ''terminal_node'')
      | Some terminal \<Rightarrow>
          Inr (generate_node self nc node_name root terminal
                 (process_publishers nc) (process_subscribers nc))))"

fun get_nodes_nodes :: "'v node_config list \<Rightarrow> 'v Config2Nodes \<Rightarrow> error + 'v Config2Nodes" where
  "get_nodes_nodes [] self = Inr self"
| "get_nodes_nodes (nc # ncs) self =
     (case get_nodes_node nc self of
        Inl e \<Rightarrow> Inl e
      | Inr self' \<Rightarrow> get_nodes_nodes ncs self')"

text \<open>The loop over \<^verbatim>\<open>self.config['environments']\<close>, with its \<^verbatim>\<open>continue\<close>.\<close>

fun get_nodes_environments ::
  "'v environment list \<Rightarrow> 'v Config2Nodes \<Rightarrow> error + 'v Config2Nodes" where
  "get_nodes_environments [] self = Inr self"
| "get_nodes_environments (environment # es) self =
     (if env_name environment \<noteq> ''env1'' then get_nodes_environments es self
      else
        (case get_nodes_nodes (env_nodes environment) self of
           Inl e \<Rightarrow> Inl e
         | Inr self' \<Rightarrow> get_nodes_environments es self'))"

text \<open>
  \<^verbatim>\<open>get_nodes\<close> returns \<^verbatim>\<open>self.nodes\<close>; the model returns it together with the converter as
  the call leaves it. An exception leaves the call without a value.
\<close>

definition get_nodes :: "'v Config2Nodes \<Rightarrow> error + ('v node list \<times> 'v Config2Nodes)" where
  "get_nodes self =
     (case get_nodes_environments (environments (config self)) self of
        Inl e \<Rightarrow> Inl e
      | Inr self' \<Rightarrow> Inr (nodes self', self'))"

text \<open>
  \<^verbatim>\<open>generate_launch_description\<close>, from the parsed document on: validate, build a converter,
  expand. The result stands for \<^verbatim>\<open>LaunchDescription(nodes)\<close>.
\<close>

definition generate_launch_description :: "'v config \<Rightarrow> error + 'v node list" where
  "generate_launch_description parsed =
     (case load_config parsed of
        Inl e \<Rightarrow> Inl e
      | Inr cfg \<Rightarrow>
          (case get_nodes (Config2Nodes_init cfg) of
             Inl e \<Rightarrow> Inl e
           | Inr (ns, _) \<Rightarrow> Inr ns))"

section \<open>The specification's vocabulary\<close>

text \<open>
  The definitions of this section are not translations of code: they spell out the notions
  the specification speaks in, and the theorems below relate the translated functions to
  them.
\<close>

text \<open>How many of the three characterization fields a publisher carries.\<close>

definition fields_present :: "'v publisher \<Rightarrow> nat" where
  "fields_present p =
     length (filter (\<lambda>field. field \<noteq> None)
       [pub_bandwidth p, pub_msg_size p, pub_msg_frequency p])"










text \<open>The head of a list of violations as the result of a validation.\<close>

definition first_error :: "error list \<Rightarrow> error + unit" where
  "first_error vs = (case vs of [] \<Rightarrow> Inr () | e # _ \<Rightarrow> Inl e)"

text \<open>
  The topic names one publisher or subscriber of the given quantity stands for, and the
  assignments the publishers (subscribers) of a node make to its topic dictionary, in the
  order they are made.
\<close>

definition topic_names :: "string \<Rightarrow> int \<Rightarrow> string list" where
  "topic_names topic_name qty =
     (if qty \<noteq> 1 then map (\<lambda>num. topic_name @ ''_'' @ str num) [1..qty] else [topic_name])"

definition publisher_entries :: "'v node_config \<Rightarrow> (string \<times> 'v publish_topic) list" where
  "publisher_entries nc =
     concat (map (\<lambda>p. map (\<lambda>k. (k, publish_topic_of p))
                         (topic_names (pub_name p) (get_default (pub_qty p) 1)))
       (get_default (nc_publishers nc) []))"

definition subscriber_entries :: "'v node_config \<Rightarrow> (string \<times> subscribe_topic) list" where
  "subscriber_entries nc =
     concat (map (\<lambda>s. map (\<lambda>k. (k, [(''node'', sub_node s)]))
                         (topic_names (sub_name s) (get_default (sub_qty s) 1)))
       (get_default (nc_subscribers nc) []))"

text \<open>
  The instance names of a node, and the descriptors one node and a list of nodes contribute
  to \<^verbatim>\<open>self.nodes\<close>, or the \<open>KeyError\<close> that stops the expansion.
\<close>

definition instance_names :: "string \<Rightarrow> int option \<Rightarrow> string list" where
  "instance_names node_name qty =
     (case qty of
        None \<Rightarrow> [node_name]
      | Some node_qty \<Rightarrow> map (\<lambda>num. node_name @ ''_'' @ str num) [1..node_qty])"

definition descriptors :: "'v node_config \<Rightarrow> error + 'v node list" where
  "descriptors nc =
     (case nc_root_node nc of
        None \<Rightarrow> Inl (KeyError ''root_node'')
      | Some root \<Rightarrow>
     (case nc_terminal_node nc of
        None \<Rightarrow> Inl (KeyError ''terminal_node'')
      | Some terminal \<Rightarrow>
          Inr (map (\<lambda>nm. create_node nm root terminal
                           (process_publishers nc) (process_subscribers nc))
                 (instance_names (nc_name nc) (nc_qty nc)))))"

fun all_descriptors :: "'v node_config list \<Rightarrow> error + 'v node list" where
  "all_descriptors [] = Inr []"
| "all_descriptors (nc # ncs) =
     (case descriptors nc of
        Inl e \<Rightarrow> Inl e
      | Inr ds \<Rightarrow>
          (case all_descriptors ncs of
             Inl e \<Rightarrow> Inl e
           | Inr ds' \<Rightarrow> Inr (ds @ ds')))"

definition env1_nodes :: "'v config \<Rightarrow> 'v node_config list" where
  "env1_nodes cfg =
     concat (map env_nodes (filter (\<lambda>environment. env_name environment = ''env1'')
       (environments cfg)))"

section \<open>Example documents\<close>

text \<open>One environment \<^verbatim>\<open>env1\<close> with one plain node \<^verbatim>\<open>a\<close>.\<close>

definition doc_plain :: "int config" where
  "doc_plain =
     \<lparr>environments = [\<lparr>env_name = ''env1'', env_nodes =
        [\<lparr>nc_name = ''a'', nc_qty = None, nc_root_node = Some False,
          nc_terminal_node = Some False, nc_publishers = None, nc_subscribers = None\<rparr>]\<rparr>]\<rparr>"

text \<open>The same node in an environment named \<^verbatim>\<open>env2\<close>.\<close>

definition doc_env2 :: "int config" where
  "doc_env2 =
     \<lparr>environments = [\<lparr>env_name = ''env2'', env_nodes =
        [\<lparr>nc_name = ''a'', nc_qty = None, nc_root_node = Some False,
          nc_terminal_node = Some False, nc_publishers = None, nc_subscribers = None\<rparr>]\<rparr>]\<rparr>"

text \<open>Two environments that are both named \<^verbatim>\<open>env1\<close>.\<close>

definition doc_twice_env1 :: "int config" where
  "doc_twice_env1 =
     \<lparr>environments =
        [\<lparr>env_name = ''env1'', env_nodes =
           [\<lparr>nc_name = ''a'', nc_qty = None, nc_root_node = Some False,
             nc_terminal_node = Some False, nc_publishers = None, nc_subscribers = None\<rparr>]\<rparr>,
         \<lparr>env_name = ''env1'', env_nodes =
           [\<lparr>nc_name = ''b'', nc_qty = None, nc_root_node = Some False,
             nc_terminal_node = Some False, nc_publishers = None, nc_subscribers = None\<rparr>]\<rparr>]\<rparr>"



text \<open>A valid node \<^verbatim>\<open>a\<close> followed by a node \<^verbatim>\<open>b\<close> of quantity 0.\<close>

definition doc_zero :: "int config" where
  "doc_zero =
     \<lparr>environments = [\<lparr>env_name = ''env1'', env_nodes =
        [\<lparr>nc_name = ''a'', nc_qty = None, nc_root_node = Some False,
          nc_terminal_node = Some False, nc_publishers = None, nc_subscribers = None\<rparr>,
         \<lparr>nc_name = ''b'', nc_qty = Some 0, nc_root_node = Some False,
          nc_terminal_node = Some False, nc_publishers = None, nc_subscribers = None\<rparr>]\<rparr>]\<rparr>"

text \<open>
  A node whose second publisher \<^verbatim>\<open>t_1\<close> has the name that the first replica of its first
  publisher \<^verbatim>\<open>t\<close> (quantity 2) gets.
\<close>

definition node_dup :: "int node_config" where
  "node_dup =
     \<lparr>nc_name = ''n'', nc_qty = None, nc_root_node = Some False, nc_terminal_node = Some False,
      nc_publishers = Some
        [\<lparr>pub_name = ''t'', pub_qty = Some 2, pub_bandwidth = Some 1,
          pub_msg_size = Some 2, pub_msg_frequency = None\<rparr>,
         \<lparr>pub_name = ''t_1'', pub_qty = None, pub_bandwidth = Some 3,
          pub_msg_size = None, pub_msg_frequency = Some 4\<rparr>],
      nc_subscribers = None\<rparr>"


section \<open>The validator stops at the first violation\<close>



lemma first_error_Cons: "first_error (e # es) = Inl e"
  by (simp add: first_error_def)

lemma parameter_count_fields: "parameter_count p = fields_present p"
  by (simp add: parameter_count_def fields_present_def)
















lemma validate_nodes_append:
  "validate_nodes (xs @ ys) =
     (case validate_nodes xs of Inl e \<Rightarrow> Inl e | Inr _ \<Rightarrow> validate_nodes ys)"
  by (induction xs) (simp_all split: sum.splits)

lemma validate_environments_append:
  "validate_environments (xs @ ys) =
     (case validate_environments xs of Inl e \<Rightarrow> Inl e | Inr _ \<Rightarrow> validate_environments ys)"
  by (induction xs) (simp_all split: sum.splits)

lemma validate_node_quantity:
  "get_default (nc_qty nc) 1 < 1 \<Longrightarrow> validate_node nc = Inl (InvalidNodeQuantity (nc_name nc))"
  by (simp add: validate_node_def)

lemma generate_launch_description_rejected:
  "validate_config cfg = Inl e \<Longrightarrow>
     load_config cfg = Inl e \<and> generate_launch_description cfg = Inl e"
  by (simp add: load_config_def generate_launch_description_def)

section \<open>What the expansion appends\<close>

text \<open>
  The loops of \<^verbatim>\<open>get_nodes\<close> and \<^verbatim>\<open>generate_node\<close> only ever append to \<^verbatim>\<open>self.nodes\<close>, and what
  they append does not depend on what is already there. The only error of the expansion is
  the \<open>KeyError\<close> of a node without a role key.
\<close>

lemma fold_append_nodes:
  "fold (\<lambda>num s. s\<lparr>nodes := nodes s @ [f num]\<rparr>) ks self = self\<lparr>nodes := nodes self @ map f ks\<rparr>"
  by (induction ks arbitrary: self) simp_all

lemma generate_node_nodes:
  "generate_node self nc nm r t pt st =
     self\<lparr>nodes := nodes self @ map (\<lambda>n. create_node n r t pt st) (instance_names nm (nc_qty nc))\<rparr>"
  by (simp add: generate_node_def instance_names_def fold_append_nodes comp_def split: option.splits)

lemma get_nodes_node_descriptors:
  "get_nodes_node nc self =
     (case descriptors nc of Inl e \<Rightarrow> Inl e | Inr ds \<Rightarrow> Inr (self\<lparr>nodes := nodes self @ ds\<rparr>))"
  by (simp add: get_nodes_node_def descriptors_def generate_node_nodes split: option.splits)

lemma get_nodes_nodes_descriptors:
  "get_nodes_nodes ncs self =
     (case all_descriptors ncs of Inl e \<Rightarrow> Inl e | Inr ds \<Rightarrow> Inr (self\<lparr>nodes := nodes self @ ds\<rparr>))"
  by (induction ncs arbitrary: self) (simp_all add: get_nodes_node_descriptors split: sum.splits)

lemma get_nodes_nodes_append:
  "get_nodes_nodes (xs @ ys) self =
     (case get_nodes_nodes xs self of Inl e \<Rightarrow> Inl e | Inr self' \<Rightarrow> get_nodes_nodes ys self')"
  by (induction xs arbitrary: self) (simp_all split: sum.splits)

lemma get_nodes_environments_env1:
  "get_nodes_environments es self =
     get_nodes_nodes (concat (map env_nodes (filter (\<lambda>environment. env_name environment = ''env1'') es))) self"
  by (induction es arbitrary: self) (simp_all add: get_nodes_nodes_append split: sum.splits)

lemma get_nodes_descriptors:
  "get_nodes self =
     (case all_descriptors (env1_nodes (config self)) of
        Inl e \<Rightarrow> Inl e
      | Inr ds \<Rightarrow> Inr (nodes self @ ds, self\<lparr>nodes := nodes self @ ds\<rparr>))"
  by (simp add: get_nodes_def get_nodes_environments_env1 get_nodes_nodes_descriptors env1_nodes_def
      split: sum.splits)

lemma all_descriptors_total:
  "(\<forall>nc \<in> set ncs. nc_root_node nc \<noteq> None \<and> nc_terminal_node nc \<noteq> None) \<Longrightarrow>
     \<exists>ds. all_descriptors ncs = Inr ds"
  by (induction ncs) (auto simp: descriptors_def split: option.splits sum.splits)

lemma get_nodes_total:
  "(\<forall>nc \<in> set (env1_nodes (config self)).
      nc_root_node nc \<noteq> None \<and> nc_terminal_node nc \<noteq> None) \<Longrightarrow>
     \<exists>ds self'. get_nodes self = Inr (ds, self')"
  using all_descriptors_total [of "env1_nodes (config self)"]
  by (auto simp: get_nodes_descriptors)

section \<open>Topic dictionaries\<close>

text \<open>
  \<^verbatim>\<open>process_publishers\<close> and \<^verbatim>\<open>process_subscribers\<close> are one run of dictionary assignments
  over the entries of the node, starting from the empty dictionary.
\<close>

lemma set_topics_fold:
  "set_topics nm q t d =
     fold (\<lambda>kv. AList.update (fst kv) (snd kv)) (map (\<lambda>k. (k, t)) (topic_names nm q)) d"
  by (simp add: set_topics_def topic_names_def fold_map comp_def)

lemma fold_set_topics:
  "fold (\<lambda>x d. set_topics (nm x) (q x) (t x) d) xs d0 =
     fold (\<lambda>kv. AList.update (fst kv) (snd kv))
       (concat (map (\<lambda>x. map (\<lambda>k. (k, t x)) (topic_names (nm x) (q x))) xs)) d0"
  by (induction xs arbitrary: d0) (simp_all add: set_topics_fold)

lemma process_publishers_entries:
  "process_publishers nc = fold (\<lambda>kv. AList.update (fst kv) (snd kv)) (publisher_entries nc) []"
  by (simp add: process_publishers_def publisher_entries_def get_default_def fold_set_topics
      split: option.splits)

lemma process_subscribers_entries:
  "process_subscribers nc = fold (\<lambda>kv. AList.update (fst kv) (snd kv)) (subscriber_entries nc) []"
  by (simp add: process_subscribers_def subscriber_entries_def get_default_def fold_set_topics
      split: option.splits)

lemma map_of_fold_update:
  "map_of (fold (\<lambda>kv. AList.update (fst kv) (snd kv)) es d) = map_of d ++ map_of (rev es)"
proof (induction es arbitrary: d)
  case Nil
  show ?case by simp
next
  case (Cons kv es)
  have "map_of (AList.update (fst kv) (snd kv) d) = map_of d ++ map_of [kv]"
    by (cases kv) (simp add: update_conv')
  then show ?case
    by (simp add: Cons.IH map_add_assoc del: map_of.simps)
qed

lemma distinct_fold_update:
  "distinct (map fst d) \<Longrightarrow> distinct (map fst (fold (\<lambda>kv. AList.update (fst kv) (snd kv)) es d))"
  by (induction es arbitrary: d) (simp_all add: distinct_update)

lemma keys_fold_update:
  "fst ` set (fold (\<lambda>kv. AList.update (fst kv) (snd kv)) es d) = fst ` set es \<union> fst ` set d"
  by (induction es arbitrary: d) (auto simp: dom_update)

lemma length_fold_update:
  "length (fold (\<lambda>kv. AList.update (fst kv) (snd kv)) es []) = card (set (map fst es))"
proof -
  let ?r = "fold (\<lambda>kv. AList.update (fst kv) (snd kv)) es []"
  have "distinct (map fst ?r)" by (rule distinct_fold_update) simp
  then have "length (map fst ?r) = card (set (map fst ?r))" by (simp only: distinct_card)
  moreover have "set (map fst ?r) = set (map fst es)"
    using keys_fold_update [of es "[]"] by simp
  ultimately show ?thesis by simp
qed

lemma length_fold_update_le:
  "length (fold (\<lambda>kv. AList.update (fst kv) (snd kv)) es []) \<le> length es"
  using card_length [of "map fst es"] by (simp add: length_fold_update)

lemma length_fold_update_less:
  assumes "\<not> distinct (map fst es)"
  shows "length (fold (\<lambda>kv. AList.update (fst kv) (snd kv)) es []) < length es"
proof -
  have "card (set (map fst es)) \<noteq> length (map fst es)"
    using assms card_distinct by blast
  with card_length [of "map fst es"] show ?thesis
    by (simp add: length_fold_update)
qed

lemma length_topic_names: "length (topic_names nm q) = nat q"
  by (simp add: topic_names_def)

lemma length_publisher_entries:
  "length (publisher_entries nc) =
     sum_list (map (\<lambda>p. nat (get_default (pub_qty p) 1)) (get_default (nc_publishers nc) []))"
  by (simp add: publisher_entries_def length_concat comp_def length_topic_names)

lemma length_subscriber_entries:
  "length (subscriber_entries nc) =
     sum_list (map (\<lambda>s. nat (get_default (sub_qty s) 1)) (get_default (nc_subscribers nc) []))"
  by (simp add: subscriber_entries_def length_concat comp_def length_topic_names)

lemma str_1: "str 1 = ''1''" by (simp add: str_def str_nat.simps)
lemma str_2: "str 2 = ''2''" by (simp add: str_def str_nat.simps)

lemma upto_1_2: "[1..2::int] = [1, 2]" by (simp add: upto_rec1)

section \<open>The claims\<close>

subsection \<open>C1: node replication and naming\<close>

text \<open>
  C1 says that a node of quantity 1 yields one descriptor with the unmodified name, whether
  the quantity is written or defaulted. \<^verbatim>\<open>generate_node\<close> branches on the presence of the
  key \<^verbatim>\<open>qty\<close>: a node with \<^verbatim>\<open>qty: 1\<close> written out yields one descriptor named \<^verbatim>\<open>X_1\<close>, the
  same node without the key yields \<^verbatim>\<open>X\<close>. The topic loops of \<^verbatim>\<open>process_publishers\<close> and
  \<^verbatim>\<open>process_subscribers\<close> test \<^verbatim>\<open>qty != 1\<close> and leave the name of a topic of written
  quantity 1 unmodified.
\<close>

theorem explicit_qty_one_is_suffixed:
  "generate_launch_description
     \<lparr>environments = [\<lparr>env_name = ''env1'', env_nodes =
        [\<lparr>nc_name = ''X'', nc_qty = Some 1, nc_root_node = Some False,
          nc_terminal_node = Some False, nc_publishers = None, nc_subscribers = None\<rparr>]\<rparr>]\<rparr>
   = Inr [create_node ''X_1'' False False [] []] \<and>
   generate_launch_description
     \<lparr>environments = [\<lparr>env_name = ''env1'', env_nodes =
        [\<lparr>nc_name = ''X'', nc_qty = None, nc_root_node = Some False,
          nc_terminal_node = Some False, nc_publishers = None, nc_subscribers = None\<rparr>]\<rparr>]\<rparr>
   = Inr [create_node ''X'' False False [] []] \<and>
   process_subscribers
     \<lparr>nc_name = ''X'', nc_qty = Some 1, nc_root_node = Some False,
      nc_terminal_node = Some False, nc_publishers = None,
      nc_subscribers = Some [\<lparr>sub_name = ''img'', sub_node = ''sensor'', sub_qty = Some 1\<rparr>]\<rparr>
   = [(''img'', [(''node'', ''sensor'')])]"
  by (simp add: generate_launch_description_def load_config_def validate_config_def
      validate_node_def get_default_def Config2Nodes_init_def get_nodes_def get_nodes_node_def
      generate_node_def process_publishers_def process_subscribers_def set_topics_def str_1)

subsection \<open>C2: expansion of an accepted document\<close>

text \<open>
  C2 says that expansion raises no error on a document the validator accepts. The
  validator reads \<^verbatim>\<open>root_node\<close> and \<^verbatim>\<open>terminal_node\<close> with \<^verbatim>\<open>.get(key, False)\<close> and so accepts
  a node without them; \<^verbatim>\<open>get_nodes\<close> reads them with \<^verbatim>\<open>node_config[key]\<close> and raises
  \<open>KeyError\<close> on the same node.
\<close>

theorem validated_config_expansion_KeyError:
  "validate_config
     \<lparr>environments = [\<lparr>env_name = ''env1'', env_nodes =
        [\<lparr>nc_name = ''a'', nc_qty = None, nc_root_node = None,
          nc_terminal_node = None, nc_publishers = None, nc_subscribers = None\<rparr>]\<rparr>]\<rparr>
   = Inr () \<and>
   generate_launch_description
     \<lparr>environments = [\<lparr>env_name = ''env1'', env_nodes =
        [\<lparr>nc_name = ''a'', nc_qty = None, nc_root_node = None,
          nc_terminal_node = None, nc_publishers = None, nc_subscribers = None\<rparr>]\<rparr>]\<rparr>
   = Inl (KeyError ''root_node'')"
  by (simp add: generate_launch_description_def load_config_def validate_config_def
      validate_node_def get_default_def Config2Nodes_init_def get_nodes_def get_nodes_node_def)

subsection \<open>C3: repeated expansion\<close>

text \<open>
  C3 as stated fails: \<^verbatim>\<open>get_nodes\<close> appends to \<^verbatim>\<open>self.nodes\<close>, which only \<^verbatim>\<open>__init__\<close> resets.
  On an accepted document with one node the first call returns one descriptor and the
  second call on the same converter returns two.
\<close>

theorem get_nodes_twice_counterexample:
  "validate_config doc_plain = Inr () \<and>
   get_nodes (Config2Nodes_init doc_plain) =
     Inr ([create_node ''a'' False False [] []],
          \<lparr>nodes = [create_node ''a'' False False [] []], config = doc_plain\<rparr>) \<and>
   get_nodes \<lparr>nodes = [create_node ''a'' False False [] []], config = doc_plain\<rparr> =
     Inr ([create_node ''a'' False False [] [], create_node ''a'' False False [] []],
          \<lparr>nodes = [create_node ''a'' False False [] [], create_node ''a'' False False [] []],
           config = doc_plain\<rparr>)"
  by (simp add: doc_plain_def validate_config_def
      validate_node_def get_default_def Config2Nodes_init_def get_nodes_def get_nodes_node_def
      generate_node_def process_publishers_def process_subscribers_def)

text \<open>
  C3, amended: the sequence that \<^verbatim>\<open>get_nodes\<close> returns on a freshly constructed converter
  is determined by the document alone (it is \<^const>\<open>all_descriptors\<close> of the nodes of the
  environments named \<^verbatim>\<open>env1\<close>), and a second call on the same converter returns that
  sequence followed by the same descriptors once more.
\<close>

theorem get_nodes_repeated:
  assumes "get_nodes (Config2Nodes_init cfg) = Inr (ds, self')"
  shows "all_descriptors (env1_nodes cfg) = Inr ds \<and>
         self' = \<lparr>nodes = ds, config = cfg\<rparr> \<and>
         get_nodes self' = Inr (ds @ ds, \<lparr>nodes = ds @ ds, config = cfg\<rparr>)"
proof -
  from assms have ds: "all_descriptors (env1_nodes cfg) = Inr ds"
    and self': "self' = \<lparr>nodes = ds, config = cfg\<rparr>"
    by (auto simp: get_nodes_descriptors Config2Nodes_init_def split: sum.splits)
  have "get_nodes self' = Inr (ds @ ds, \<lparr>nodes = ds @ ds, config = cfg\<rparr>)"
    by (simp add: get_nodes_descriptors self' ds)
  with ds self' show ?thesis by simp
qed

theorem get_nodes_repeated_witness:
  "get_nodes (Config2Nodes_init doc_plain) =
     Inr ([create_node ''a'' False False [] []],
          \<lparr>nodes = [create_node ''a'' False False [] []], config = doc_plain\<rparr>) \<and>
   get_nodes \<lparr>nodes = [create_node ''a'' False False [] []], config = doc_plain\<rparr> =
     Inr ([create_node ''a'' False False [] []] @ [create_node ''a'' False False [] []],
          \<lparr>nodes = [create_node ''a'' False False [] []] @ [create_node ''a'' False False [] []],
           config = doc_plain\<rparr>)"
proof -
  have first: "get_nodes (Config2Nodes_init doc_plain) =
     Inr ([create_node ''a'' False False [] []],
          \<lparr>nodes = [create_node ''a'' False False [] []], config = doc_plain\<rparr>)"
    by (simp add: doc_plain_def Config2Nodes_init_def get_nodes_def get_nodes_node_def
        generate_node_def process_publishers_def process_subscribers_def)
  from get_nodes_repeated [OF first] first show ?thesis by simp
qed

subsection \<open>C4: root nodes and subscribers, terminal nodes and publishers\<close>

text \<open>
  C4 as stated fails: the validator tests whether the key \<^verbatim>\<open>subscribers\<close> (\<^verbatim>\<open>publishers\<close>) is
  in the node, not whether the list is non-empty. A root node with \<^verbatim>\<open>subscribers: []\<close>
  declares no subscriber and is rejected, and so is a terminal node with
  \<^verbatim>\<open>publishers: []\<close>.
\<close>

theorem root_empty_subscribers_counterexample:
  "validate_config
     \<lparr>environments = [\<lparr>env_name = ''env1'', env_nodes =
        [\<lparr>nc_name = ''r'', nc_qty = None, nc_root_node = Some True,
          nc_terminal_node = Some False, nc_publishers = None, nc_subscribers = Some []\<rparr>]\<rparr>]\<rparr>
   = Inl (RootNodeHasSubscribers ''r'') \<and>
   validate_config
     \<lparr>environments = [\<lparr>env_name = ''env1'', env_nodes =
        [\<lparr>nc_name = ''t'', nc_qty = None, nc_root_node = Some False,
          nc_terminal_node = Some True, nc_publishers = Some [], nc_subscribers = None\<rparr>]\<rparr>]\<rparr>
   = Inl (TerminalNodeHasPublishers ''t'')"
  by (simp add: validate_config_def validate_node_def get_default_def)

text \<open>
  C4, amended: a node that passes the checks made before the role rules (its quantity,
  its publishers, its subscribers) and is a root node but not a terminal node is rejected
  with \<open>RootNodeHasSubscribers\<close> exactly when it has the key \<^verbatim>\<open>subscribers\<close>, whatever the
  list holds, and is accepted otherwise; symmetrically a terminal node that is not a root
  node is rejected with \<open>TerminalNodeHasPublishers\<close> exactly when it has the key
  \<^verbatim>\<open>publishers\<close>.
\<close>

theorem role_rules_key_presence:
  assumes "1 \<le> get_default (nc_qty nc) 1"
    and "validate_publishers (nc_name nc) (get_default (nc_publishers nc) []) = Inr ()"
    and "validate_subscribers (nc_name nc) (get_default (nc_subscribers nc) []) = Inr ()"
  shows "(get_default (nc_root_node nc) False \<and> \<not> get_default (nc_terminal_node nc) False \<longrightarrow>
            validate_node nc =
              (if nc_subscribers nc \<noteq> None then Inl (RootNodeHasSubscribers (nc_name nc))
               else Inr ())) \<and>
         (get_default (nc_terminal_node nc) False \<and> \<not> get_default (nc_root_node nc) False \<longrightarrow>
            validate_node nc =
              (if nc_publishers nc \<noteq> None then Inl (TerminalNodeHasPublishers (nc_name nc))
               else Inr ()))"
  using assms by (simp add: validate_node_def Let_def)

theorem role_rules_key_presence_witness:
  "validate_node
     \<lparr>nc_name = ''r'', nc_qty = Some 2, nc_root_node = Some True, nc_terminal_node = None,
      nc_publishers = Some [\<lparr>pub_name = ''img'', pub_qty = None, pub_bandwidth = Some (50::int),
                             pub_msg_size = Some 100, pub_msg_frequency = None\<rparr>],
      nc_subscribers = Some []\<rparr>
   = Inl (RootNodeHasSubscribers ''r'') \<and>
   validate_node
     \<lparr>nc_name = ''r'', nc_qty = Some 2, nc_root_node = Some True, nc_terminal_node = None,
      nc_publishers = Some [\<lparr>pub_name = ''img'', pub_qty = None, pub_bandwidth = Some (50::int),
                             pub_msg_size = Some 100, pub_msg_frequency = None\<rparr>],
      nc_subscribers = None\<rparr>
   = Inr ()"
proof -
  let ?p = "\<lparr>pub_name = ''img'', pub_qty = None, pub_bandwidth = Some (50::int),
             pub_msg_size = Some 100, pub_msg_frequency = None\<rparr>"
  let ?n = "\<lambda>subs. \<lparr>nc_name = ''r'', nc_qty = Some 2, nc_root_node = Some True,
      nc_terminal_node = None, nc_publishers = Some [?p], nc_subscribers = subs\<rparr>"
  have pubs: "validate_publishers ''r'' [?p] = Inr ()"
    by (simp add: validate_publisher_def get_default_def parameter_count_def)
  have 1: "validate_node (?n (Some [])) = Inl (RootNodeHasSubscribers ''r'')"
    using role_rules_key_presence [of "?n (Some [])"] pubs by (simp add: get_default_def)
  have 2: "validate_node (?n None) = Inr ()"
    using role_rules_key_presence [of "?n None"] pubs by (simp add: get_default_def)
  from 1 2 show ?thesis by simp
qed

subsection \<open>C5: the environment that is expanded\<close>

text \<open>
  C5 as stated fails: \<^verbatim>\<open>get_nodes\<close> takes no target name, it compares every environment's
  name with the literal \<^verbatim>\<open>env1\<close>. For the target \<^verbatim>\<open>env2\<close> and an accepted document whose
  only environment is named \<^verbatim>\<open>env2\<close> and has a node, the expansion is empty; and when two
  environments are named \<^verbatim>\<open>env1\<close> the nodes of both are expanded, not of exactly one.
\<close>

theorem target_environment_counterexample:
  "validate_config doc_env2 = Inr () \<and>
   map env_name (environments doc_env2) = [''env2''] \<and>
   all_descriptors (concat (map env_nodes (environments doc_env2))) =
     Inr [create_node ''a'' False False [] []] \<and>
   generate_launch_description doc_env2 = Inr [] \<and>
   validate_config doc_twice_env1 = Inr () \<and>
   generate_launch_description doc_twice_env1 =
     Inr [create_node ''a'' False False [] [], create_node ''b'' False False [] []]"
  by (simp add: doc_env2_def doc_twice_env1_def generate_launch_description_def load_config_def
      validate_config_def validate_node_def get_default_def Config2Nodes_init_def get_nodes_def
      get_nodes_node_def generate_node_def process_publishers_def process_subscribers_def
      descriptors_def instance_names_def)

text \<open>
  C5, amended: the expansion of a fresh converter emits, in document order, the descriptors
  of the nodes of every environment named \<^verbatim>\<open>env1\<close> (of all of them when several have that
  name) and of no other environment; when no environment is named \<^verbatim>\<open>env1\<close> it yields the
  empty sequence.
\<close>

theorem get_nodes_env1_only:
  "get_nodes (Config2Nodes_init cfg) =
     (case all_descriptors (env1_nodes cfg) of
        Inl e \<Rightarrow> Inl e
      | Inr ds \<Rightarrow> Inr (ds, \<lparr>nodes = ds, config = cfg\<rparr>)) \<and>
   env1_nodes cfg =
     concat (map env_nodes
       (filter (\<lambda>environment. env_name environment = ''env1'') (environments cfg))) \<and>
   ((\<forall>environment \<in> set (environments cfg). env_name environment \<noteq> ''env1'') \<longrightarrow>
      get_nodes (Config2Nodes_init cfg) = Inr ([], Config2Nodes_init cfg))"
proof -
  have none: "env1_nodes cfg = []"
    if "\<forall>environment \<in> set (environments cfg). env_name environment \<noteq> ''env1''"
  proof -
    from that have "filter (\<lambda>environment. env_name environment = ''env1'') (environments cfg) = []"
      by (simp add: filter_empty_conv)
    then show ?thesis by (simp add: env1_nodes_def)
  qed
  show ?thesis
    by (auto simp: get_nodes_descriptors Config2Nodes_init_def none env1_nodes_def
        split: sum.splits)
qed

theorem get_nodes_env1_only_witness:
  "map env_name (environments doc_env2) = [''env2''] \<and>
   get_nodes (Config2Nodes_init doc_env2) = Inr ([], Config2Nodes_init doc_env2)"
proof -
  have names: "map env_name (environments doc_env2) = [''env2'']"
    by (simp add: doc_env2_def)
  then have "\<forall>environment \<in> set (environments doc_env2). env_name environment \<noteq> ''env1''"
    by (simp add: doc_env2_def)
  with get_nodes_env1_only [of doc_env2]
  have "get_nodes (Config2Nodes_init doc_env2) = Inr ([], Config2Nodes_init doc_env2)"
    by blast
  with names show ?thesis by (rule conjI)
qed

subsection \<open>C6: topics of a publisher of quantity 2\<close>



subsection \<open>C7: the parameters of a publisher\<close>

text \<open>
  C7 as stated fails: the quantity of a publisher is checked before its parameters, so a
  publisher of quantity 0 that carries none of the three fields is rejected with the
  quantity error, not with \<open>InsufficientPublisherParameters\<close>.
\<close>

theorem publisher_parameters_counterexample:
  "validate_config
     \<lparr>environments = [\<lparr>env_name = ''env1'', env_nodes =
        [\<lparr>nc_name = ''n'', nc_qty = None, nc_root_node = Some False,
          nc_terminal_node = Some False,
          nc_publishers = Some [\<lparr>pub_name = ''t'', pub_qty = Some 0, pub_bandwidth = None,
                                 pub_msg_size = None, pub_msg_frequency = None\<rparr>],
          nc_subscribers = None\<rparr>]\<rparr>]\<rparr>
   = Inl (InvalidPublisherQuantity ''t'' ''n'')"
  by (simp add: validate_config_def validate_node_def validate_publisher_def get_default_def)

text \<open>
  C7, amended: a publisher that carries 0 or 1 of the three fields is always rejected;
  the error is \<open>InsufficientPublisherParameters\<close> when its quantity is absent or at least
  1, and a publisher of such a quantity with 2 or 3 fields is accepted; a quantity below 1
  is rejected with the quantity error whatever the fields; and a publisher with 2 or 3
  fields is never rejected with \<open>InsufficientPublisherParameters\<close>.
\<close>

theorem publisher_parameter_rule:
  "(fields_present p \<le> 1 \<longrightarrow> (\<exists>e. validate_publisher node_nm p = Inl e)) \<and>
   (1 \<le> get_default (pub_qty p) 1 \<longrightarrow>
      validate_publisher node_nm p =
        (if fields_present p \<le> 1
         then Inl (InsufficientPublisherParameters (pub_name p) node_nm) else Inr ())) \<and>
   (get_default (pub_qty p) 1 < 1 \<longrightarrow>
      validate_publisher node_nm p = Inl (InvalidPublisherQuantity (pub_name p) node_nm)) \<and>
   (2 \<le> fields_present p \<longrightarrow>
      validate_publisher node_nm p \<noteq> Inl (InsufficientPublisherParameters (pub_name p) node_nm))"
  by (auto simp: validate_publisher_def Let_def parameter_count_fields)

theorem publisher_parameter_rule_witness:
  "validate_publisher ''n''
     \<lparr>pub_name = ''t'', pub_qty = Some 3, pub_bandwidth = Some (5::int),
      pub_msg_size = None, pub_msg_frequency = None\<rparr>
   = Inl (InsufficientPublisherParameters ''t'' ''n'') \<and>
   validate_publisher ''n''
     \<lparr>pub_name = ''t'', pub_qty = Some 3, pub_bandwidth = Some (5::int),
      pub_msg_size = None, pub_msg_frequency = Some 7\<rparr>
   = Inr ()"
  using publisher_parameter_rule [of "\<lparr>pub_name = ''t'', pub_qty = Some 3, pub_bandwidth = Some (5::int),
      pub_msg_size = None, pub_msg_frequency = None\<rparr>" "''n''"]
    publisher_parameter_rule [of "\<lparr>pub_name = ''t'', pub_qty = Some 3, pub_bandwidth = Some (5::int),
      pub_msg_size = None, pub_msg_frequency = Some 7\<rparr>" "''n''"]
  by (simp add: fields_present_def get_default_def)

subsection \<open>C8: the first violation in document order\<close>




subsection \<open>C9: a node of quantity 0\<close>

text \<open>
  C9 as stated fails in the error that is raised: validation stops at the first violation,
  so when a node that is both root and terminal precedes the node of quantity 0 the error is
  the role conflict of the earlier node.
\<close>

theorem quantity_zero_counterexample:
  "generate_launch_description
     \<lparr>environments = [\<lparr>env_name = ''env1'', env_nodes =
        [\<lparr>nc_name = ''a'', nc_qty = None, nc_root_node = Some True,
          nc_terminal_node = Some True, nc_publishers = None, nc_subscribers = None\<rparr>,
         \<lparr>nc_name = ''b'', nc_qty = Some 0, nc_root_node = Some False,
          nc_terminal_node = Some False, nc_publishers = None, nc_subscribers = None\<rparr>]\<rparr>]\<rparr>
   = Inl (ConflictingNodeRole ''a'')"
  by (simp add: generate_launch_description_def load_config_def validate_config_def
      validate_node_def get_default_def)

text \<open>
  C9, amended: when some node of the document has a quantity below 1, \<^verbatim>\<open>load_config\<close> raises
  a validation error, the pipeline ends with that error before any expansion and yields no
  descriptor; the error is the quantity error of that node when the environments before
  its environment and the nodes before it in its environment are valid, and otherwise the
  error of the first of them that is not.
\<close>

theorem quantity_zero_rejected:
  assumes env: "environment \<in> set (environments cfg)"
    and nc: "nc \<in> set (env_nodes environment)"
    and qty: "nc_qty nc = Some q" "q < 1"
  shows "(\<exists>e. validate_config cfg = Inl e \<and> load_config cfg = Inl e \<and>
               generate_launch_description cfg = Inl e) \<and>
         (\<forall>es1 es2 ns1 ns2.
            environments cfg = es1 @ environment # es2 \<and>
            env_nodes environment = ns1 @ nc # ns2 \<and>
            validate_environments es1 = Inr () \<and> validate_nodes ns1 = Inr () \<longrightarrow>
            load_config cfg = Inl (InvalidNodeQuantity (nc_name nc)) \<and>
            generate_launch_description cfg = Inl (InvalidNodeQuantity (nc_name nc))) \<and>
         (\<forall>es1 es2 ns1 ns2 e.
            environments cfg = es1 @ environment # es2 \<and>
            env_nodes environment = ns1 @ nc # ns2 \<and>
            (validate_environments es1 = Inl e \<or>
             validate_environments es1 = Inr () \<and> validate_nodes ns1 = Inl e) \<longrightarrow>
            load_config cfg = Inl e \<and> generate_launch_description cfg = Inl e)"
proof -
  from qty have node: "validate_node nc = Inl (InvalidNodeQuantity (nc_name nc))"
    by (simp add: validate_node_quantity get_default_def)
  from nc obtain ns1 ns2 where ns: "env_nodes environment = ns1 @ nc # ns2"
    by (auto dest: split_list)
  from env obtain es1 es2 where es: "environments cfg = es1 @ environment # es2"
    by (auto dest: split_list)
  have "\<exists>e. validate_nodes (env_nodes environment) = Inl e"
    by (cases "validate_nodes ns1") (simp_all add: ns validate_nodes_append node)
  then have "\<exists>e. validate_config cfg = Inl e"
    by (cases "validate_environments es1")
      (auto simp: validate_config_def es validate_environments_append)
  then have rejected: "\<exists>e. validate_config cfg = Inl e \<and> load_config cfg = Inl e \<and>
      generate_launch_description cfg = Inl e"
    using generate_launch_description_rejected by blast
  have first: "load_config cfg = Inl (InvalidNodeQuantity (nc_name nc)) \<and>
      generate_launch_description cfg = Inl (InvalidNodeQuantity (nc_name nc))"
    if "environments cfg = ea @ environment # eb" "env_nodes environment = na @ nc # nb"
      "validate_environments ea = Inr ()" "validate_nodes na = Inr ()" for ea eb na nb
  proof -
    have "validate_config cfg = Inl (InvalidNodeQuantity (nc_name nc))"
      using that by (simp add: validate_config_def validate_environments_append
          validate_nodes_append node)
    then show ?thesis by (rule generate_launch_description_rejected)
  qed
  have earlier: "load_config cfg = Inl e \<and> generate_launch_description cfg = Inl e"
    if "environments cfg = ea @ environment # eb" "env_nodes environment = na @ nc # nb"
      "validate_environments ea = Inl e \<or>
       validate_environments ea = Inr () \<and> validate_nodes na = Inl e" for ea eb na nb e
  proof -
    have "validate_config cfg = Inl e"
      using that by (auto simp: validate_config_def validate_environments_append
          validate_nodes_append)
    then show ?thesis by (rule generate_launch_description_rejected)
  qed
  from rejected first earlier show ?thesis by blast
qed

theorem quantity_zero_rejected_witness:
  "load_config doc_zero = Inl (InvalidNodeQuantity ''b'') \<and>
   generate_launch_description doc_zero = Inl (InvalidNodeQuantity ''b'')"
proof -
  let ?a = "\<lparr>nc_name = ''a'', nc_qty = None, nc_root_node = Some False,
      nc_terminal_node = Some False, nc_publishers = None, nc_subscribers = None\<rparr> :: int node_config"
  let ?b = "\<lparr>nc_name = ''b'', nc_qty = Some 0, nc_root_node = Some False,
      nc_terminal_node = Some False, nc_publishers = None, nc_subscribers = None\<rparr> :: int node_config"
  let ?env = "\<lparr>env_name = ''env1'', env_nodes = [?a, ?b]\<rparr>"
  have "load_config doc_zero = Inl (InvalidNodeQuantity (nc_name ?b)) \<and>
      generate_launch_description doc_zero = Inl (InvalidNodeQuantity (nc_name ?b))"
  proof (rule quantity_zero_rejected [of ?env doc_zero ?b 0, THEN conjunct2, THEN conjunct1,
        rule_format,
        of "[]" "[]" "[?a]" "[]"])
    show "?env \<in> set (environments doc_zero)" by (simp add: doc_zero_def)
    show "?b \<in> set (env_nodes ?env)" by simp
    show "nc_qty ?b = Some 0" by simp
    show "(0::int) < 1" by simp
    show "environments doc_zero = [] @ ?env # [] \<and> env_nodes ?env = [?a] @ ?b # [] \<and>
        validate_environments [] = Inr () \<and> validate_nodes [?a] = Inr ()"
      by (simp add: doc_zero_def validate_node_def get_default_def)
  qed
  then show ?thesis by simp
qed

subsection \<open>C10: duplicate topic names\<close>

text \<open>
  C10: the topic dictionary of a node has every key once; each key is mapped to the data
  of the last assignment made to it (\<^const>\<open>map_of\<close> finds the first entry of the
  reversed list of assignments); it has at most as many entries as assignments were made,
  and fewer when two assignments have the same name. The number of assignments is the sum
  of the quantities. The same holds for subscribers.
\<close>

theorem duplicate_topic_last_wins:
  "distinct (map fst (process_publishers nc)) \<and>
   map_of (process_publishers nc) = map_of (rev (publisher_entries nc)) \<and>
   length (process_publishers nc) \<le> length (publisher_entries nc) \<and>
   (\<not> distinct (map fst (publisher_entries nc)) \<longrightarrow>
      length (process_publishers nc) < length (publisher_entries nc)) \<and>
   length (publisher_entries nc) =
     sum_list (map (\<lambda>p. nat (get_default (pub_qty p) 1)) (get_default (nc_publishers nc) [])) \<and>
   distinct (map fst (process_subscribers nc)) \<and>
   map_of (process_subscribers nc) = map_of (rev (subscriber_entries nc)) \<and>
   length (process_subscribers nc) \<le> length (subscriber_entries nc) \<and>
   (\<not> distinct (map fst (subscriber_entries nc)) \<longrightarrow>
      length (process_subscribers nc) < length (subscriber_entries nc)) \<and>
   length (subscriber_entries nc) =
     sum_list (map (\<lambda>s. nat (get_default (sub_qty s) 1)) (get_default (nc_subscribers nc) []))"
proof -
  have p1: "distinct (map fst (process_publishers nc))"
    unfolding process_publishers_entries by (rule distinct_fold_update) simp
  have p2: "map_of (process_publishers nc) = map_of (rev (publisher_entries nc))"
    by (simp add: process_publishers_entries map_of_fold_update)
  have p3: "length (process_publishers nc) \<le> length (publisher_entries nc)"
    unfolding process_publishers_entries by (rule length_fold_update_le)
  have p4: "\<not> distinct (map fst (publisher_entries nc)) \<longrightarrow>
      length (process_publishers nc) < length (publisher_entries nc)"
    unfolding process_publishers_entries by (simp add: length_fold_update_less)
  have s1: "distinct (map fst (process_subscribers nc))"
    unfolding process_subscribers_entries by (rule distinct_fold_update) simp
  have s2: "map_of (process_subscribers nc) = map_of (rev (subscriber_entries nc))"
    by (simp add: process_subscribers_entries map_of_fold_update)
  have s3: "length (process_subscribers nc) \<le> length (subscriber_entries nc)"
    unfolding process_subscribers_entries by (rule length_fold_update_le)
  have s4: "\<not> distinct (map fst (subscriber_entries nc)) \<longrightarrow>
      length (process_subscribers nc) < length (subscriber_entries nc)"
    unfolding process_subscribers_entries by (simp add: length_fold_update_less)
  from p1 p2 p3 p4 length_publisher_entries [of nc] s1 s2 s3 s4 length_subscriber_entries [of nc]
  show ?thesis by blast
qed

theorem duplicate_topic_last_wins_witness:
  "publisher_entries node_dup =
     [(''t_1'', [(''msg_size'', 2), (''bandwidth'', 1)]),
      (''t_2'', [(''msg_size'', 2), (''bandwidth'', 1)]),
      (''t_1'', [(''bandwidth'', 3), (''msg_frequency'', 4)])] \<and>
   process_publishers node_dup =
     [(''t_1'', [(''bandwidth'', 3), (''msg_frequency'', 4)]),
      (''t_2'', [(''msg_size'', 2), (''bandwidth'', 1)])] \<and>
   length (process_publishers node_dup) < length (publisher_entries node_dup)"
proof -
  have entries: "publisher_entries node_dup =
     [(''t_1'', [(''msg_size'', 2), (''bandwidth'', 1)]),
      (''t_2'', [(''msg_size'', 2), (''bandwidth'', 1)]),
      (''t_1'', [(''bandwidth'', 3), (''msg_frequency'', 4)])]"
    by (simp add: publisher_entries_def node_dup_def topic_names_def get_default_def
        publish_topic_of_def upto_1_2 str_1 str_2)
  have topics: "process_publishers node_dup =
     [(''t_1'', [(''bandwidth'', 3), (''msg_frequency'', 4)]),
      (''t_2'', [(''msg_size'', 2), (''bandwidth'', 1)])]"
    by (simp add: process_publishers_def node_dup_def set_topics_def get_default_def
        publish_topic_of_def upto_1_2 str_1 str_2)
  have "\<not> distinct (map fst (publisher_entries node_dup))"
    by (simp add: entries)
  with duplicate_topic_last_wins [of node_dup]
  have "length (process_publishers node_dup) < length (publisher_entries node_dup)"
    by blast
  with entries topics show ?thesis by blast
qed

end
